theory Spec2Isabelle
  imports Complex_Main
begin

section \<open>WifiSignalSimulator: free-space loss between a moving train and two access points\<close>

text \<open>
  A shallow embedding of \<^verbatim>\<open>wifi_signal_simulator.py\<close>. A finite Python float is
  taken as the real number it stands for, so the rounding of each operation to 53 bits,
  gradual underflow and the sign of zero are outside this development. What is inside it:
  the range of the floats (an operation whose result is beyond the range gives an infinity,
  and \<^verbatim>\<open>hypot\<close> raises), the infinities and NaN, Python's unbounded ints and their
  conversion to floats, which raises when the int is too large. Every \<^verbatim>\<open>raise\<close> of
  the source and of the library functions it calls is a value \<open>Inl\<close> of a sum type.
\<close>

subsection \<open>Errors\<close>

text \<open>
  \<^verbatim>\<open>ValueError\<close> carries its message, which tells the raising sites apart.
  \<^verbatim>\<open>OverflowError\<close> is raised when an int too large for a float is converted, and by
  \<^verbatim>\<open>hypot\<close> when its result is beyond the range of the floats.
\<close>

datatype error = ValueError string | OverflowError

subsection \<open>Numbers\<close>

text \<open>
  A Python float is finite, an infinity or NaN; a number is an int or a float. A real
  \<open>x\<close> rounds to a finite float exactly when \<open>\<bar>x\<bar> < 2 ^ 1024 - 2 ^ 970\<close>, the largest float
  plus half the distance to the next power of two.
\<close>

datatype pyfloat = Finite real | PosInf | NegInf | NaN

datatype pynum = PyInt int | PyFloat pyfloat

definition float_limit :: real where
  "float_limit = 2 ^ 1024 - 2 ^ 970"

text \<open>The float that an arithmetic operation returns when its exact result is \<open>x\<close>.\<close>

definition overflow :: "real \<Rightarrow> pyfloat" where
  "overflow x =
     (if float_limit \<le> x then PosInf else if x \<le> - float_limit then NegInf else Finite x)"

text \<open>The conversion of a number to a float, as arithmetic with a float and the
  \<^verbatim>\<open>math\<close> functions do it.\<close>

fun as_float :: "pynum \<Rightarrow> error + pyfloat" where
  "as_float (PyInt n) =
     (if float_limit \<le> \<bar>real_of_int n\<bar> then Inl OverflowError else Inr (Finite (real_of_int n)))"
| "as_float (PyFloat x) = Inr x"

text \<open>Multiplication and subtraction of floats: no exception, infinities and NaN as in
  IEEE 754.\<close>

fun fmul :: "pyfloat \<Rightarrow> pyfloat \<Rightarrow> pyfloat" where
  "fmul (Finite x) (Finite y) = overflow (x * y)"
| "fmul NaN y = NaN"
| "fmul x NaN = NaN"
| "fmul (Finite x) PosInf = (if x = 0 then NaN else if 0 < x then PosInf else NegInf)"
| "fmul (Finite x) NegInf = (if x = 0 then NaN else if 0 < x then NegInf else PosInf)"
| "fmul PosInf (Finite y) = (if y = 0 then NaN else if 0 < y then PosInf else NegInf)"
| "fmul NegInf (Finite y) = (if y = 0 then NaN else if 0 < y then NegInf else PosInf)"
| "fmul PosInf PosInf = PosInf"
| "fmul PosInf NegInf = NegInf"
| "fmul NegInf PosInf = NegInf"
| "fmul NegInf NegInf = PosInf"

fun fsub :: "pyfloat \<Rightarrow> pyfloat \<Rightarrow> pyfloat" where
  "fsub (Finite x) (Finite y) = overflow (x - y)"
| "fsub NaN y = NaN"
| "fsub x NaN = NaN"
| "fsub PosInf PosInf = NaN"
| "fsub NegInf NegInf = NaN"
| "fsub PosInf y = PosInf"
| "fsub NegInf y = NegInf"
| "fsub (Finite x) PosInf = NegInf"
| "fsub (Finite x) NegInf = PosInf"

text \<open>
  \<^verbatim>\<open>a * b\<close> and \<^verbatim>\<open>a - b\<close> on numbers: exact on two ints, otherwise both
  operands are converted to floats.
\<close>

fun py_mul :: "pynum \<Rightarrow> pynum \<Rightarrow> error + pynum" where
  "py_mul (PyInt a) (PyInt b) = Inr (PyInt (a * b))"
| "py_mul a b =
     (case as_float a of
        Inl e \<Rightarrow> Inl e
      | Inr x \<Rightarrow> (case as_float b of Inl e \<Rightarrow> Inl e | Inr y \<Rightarrow> Inr (PyFloat (fmul x y))))"

fun py_sub :: "pynum \<Rightarrow> pynum \<Rightarrow> error + pynum" where
  "py_sub (PyInt a) (PyInt b) = Inr (PyInt (a - b))"
| "py_sub a b =
     (case as_float a of
        Inl e \<Rightarrow> Inl e
      | Inr x \<Rightarrow> (case as_float b of Inl e \<Rightarrow> Inl e | Inr y \<Rightarrow> Inr (PyFloat (fsub x y))))"

subsection \<open>Library functions\<close>

text \<open>
  \<^verbatim>\<open>math.hypot(a, b)\<close>: both arguments are converted to floats; an infinite
  argument gives infinity, otherwise a NaN argument gives NaN, otherwise the result is the
  Euclidean norm of the vector \<open>(a, b)\<close>, and \<^verbatim>\<open>OverflowError\<close> when that is beyond
  the range of the floats.
\<close>

definition norm2 :: "real \<Rightarrow> real \<Rightarrow> real" where
  "norm2 a b = sqrt (a\<^sup>2 + b\<^sup>2)"

fun fhypot :: "pyfloat \<Rightarrow> pyfloat \<Rightarrow> error + pyfloat" where
  "fhypot (Finite x) (Finite y) =
     (if float_limit \<le> norm2 x y then Inl OverflowError else Inr (Finite (norm2 x y)))"
| "fhypot PosInf y = Inr PosInf"
| "fhypot NegInf y = Inr PosInf"
| "fhypot x PosInf = Inr PosInf"
| "fhypot x NegInf = Inr PosInf"
| "fhypot NaN y = Inr NaN"
| "fhypot x NaN = Inr NaN"

definition hypot :: "pynum \<Rightarrow> pynum \<Rightarrow> error + pyfloat" where
  "hypot a b =
     (case as_float a of
        Inl e \<Rightarrow> Inl e
      | Inr x \<Rightarrow> (case as_float b of Inl e \<Rightarrow> Inl e | Inr y \<Rightarrow> fhypot x y))"

text \<open>
  \<^verbatim>\<open>math.log10(x)\<close>: raises \<^verbatim>\<open>ValueError("math domain error")\<close> when
  \<open>x\<close> is zero or negative.
\<close>

definition log10 :: "real \<Rightarrow> error + real" where
  "log10 x = (if x \<le> 0 then Inl (ValueError ''math domain error'') else Inr (log 10 x))"

text \<open>
  \<^verbatim>\<open>str(n)\<close> for an integer: the decimal digits, with a minus sign when negative.
\<close>

definition digit_char :: "nat \<Rightarrow> char" where
  "digit_char d = ''0123456789'' ! d"

fun nat_digits :: "nat \<Rightarrow> string" where
  "nat_digits n =
     (if n < 10 then [digit_char n] else nat_digits (n div 10) @ [digit_char (n mod 10)])"

declare nat_digits.simps [simp del]

definition str_int :: "int \<Rightarrow> string" where
  "str_int n = (if n < 0 then CHR ''-'' # nat_digits (nat (- n)) else nat_digits (nat n))"

subsection \<open>The distance function\<close>

text \<open>
  \<^verbatim>\<open>current_signal_distance(AP_number, starting_train_distance, inter_AP_distance,
  time, velocity)\<close>: the branches in the order of the source, and in each branch the
  operations in the order in which they are evaluated.
\<close>

definition current_signal_distance ::
  "int \<Rightarrow> pynum \<Rightarrow> pynum \<Rightarrow> pynum \<Rightarrow> pynum \<Rightarrow> error + pyfloat" where
  "current_signal_distance AP_number starting_train_distance inter_AP_distance time velocity =
     (if AP_number = 1 then
        (let a = starting_train_distance in
         case py_mul velocity time of
           Inl e \<Rightarrow> Inl e
         | Inr b \<Rightarrow> hypot a b)
      else if AP_number = 2 then
        (let a = starting_train_distance in
         case py_mul velocity time of
           Inl e \<Rightarrow> Inl e
         | Inr p \<Rightarrow>
             (case py_sub inter_AP_distance p of
                Inl e \<Rightarrow> Inl e
              | Inr b \<Rightarrow> hypot a b))
      else Inl (ValueError (str_int AP_number @ '' must be either 1 or 2.'')))"

subsection \<open>The free-space loss function\<close>

text \<open>
  \<^verbatim>\<open>compute_free_space_loss(distance, band="2.4")\<close>. The band is checked first;
  the distance is not checked at all and reaches \<^verbatim>\<open>log10\<close> as it is. In the
  return expression the logarithm of the wavelength is evaluated before the logarithm of
  the distance.
\<close>

definition default_band :: string where
  "default_band = ''2.4''"

definition constant_factor :: real where
  "constant_factor = 21.984"

definition compute_free_space_loss :: "real \<Rightarrow> string \<Rightarrow> error + real" where
  "compute_free_space_loss distance band =
     (case (if band = ''2.4'' then Inr 0.12491
            else if band = ''5.0'' then Inr 0.05996
            else Inl (ValueError
                   (band @ '' is an unsupported frequency or is incorrectly formatted.''))) of
        Inl e \<Rightarrow> Inl e
      | Inr wavelength \<Rightarrow>
          (case log10 wavelength of
             Inl e \<Rightarrow> Inl e
           | Inr lw \<Rightarrow>
               (case log10 distance of
                  Inl e \<Rightarrow> Inl e
                | Inr ld \<Rightarrow> Inr (- 20 * lw + 20 * ld + constant_factor))))"

text \<open>
  The same function at a float distance, as the driver calls it. At a finite distance it is
  \<open>compute_free_space_loss\<close>; the loss is then far inside the range of the floats. At an
  infinity or NaN the band is checked first as well; \<^verbatim>\<open>log10\<close> of \<open>+inf\<close> is
  \<open>+inf\<close>, of NaN is NaN, of \<open>-inf\<close> is a domain error, and the arithmetic of the return
  expression keeps \<open>+inf\<close> and NaN.
\<close>

definition compute_free_space_loss_float :: "pyfloat \<Rightarrow> string \<Rightarrow> error + pyfloat" where
  "compute_free_space_loss_float distance band =
     (case distance of
        Finite d \<Rightarrow>
          (case compute_free_space_loss d band of
             Inl e \<Rightarrow> Inl e
           | Inr loss \<Rightarrow> Inr (Finite loss))
      | _ \<Rightarrow>
          if band \<noteq> ''2.4'' \<and> band \<noteq> ''5.0'' then
            Inl (ValueError (band @ '' is an unsupported frequency or is incorrectly formatted.''))
          else
            (case distance of
               PosInf \<Rightarrow> Inr PosInf
             | NaN \<Rightarrow> Inr NaN
             | _ \<Rightarrow> Inl (ValueError ''math domain error'')))"

subsection \<open>Fixed-point formatting\<close>

text \<open>
  \<^verbatim>\<open>("{0:." + str(mantissa_length) + "f}").format(x)\<close>. A finite value is rounded
  to \<open>p\<close> decimal places, ties to the even neighbour, and written as an optional minus
  sign, the digits of the integer part, and, when \<open>p\<close> is positive, a point and exactly
  \<open>p\<close> digits; the sign is the sign of the value, also when it rounds to zero. An infinity
  is written \<^verbatim>\<open>inf\<close> or \<^verbatim>\<open>-inf\<close> and NaN \<^verbatim>\<open>nan\<close>, whatever the precision.
  \<^verbatim>\<open>format\<close> raises a \<^verbatim>\<open>ValueError\<close>, each time it is called, for a negative
  \<^verbatim>\<open>mantissa_length\<close> (the specification is then \<^verbatim>\<open>.-1f\<close>), for a precision
  above the largest C int, and for one above the largest machine-word index (here that of
  a 64-bit build).
\<close>

definition round_half_even :: "real \<Rightarrow> int" where
  "round_half_even y =
     (let f = \<lfloor>y\<rfloor>; r = y - of_int f
      in if r < 1 / 2 then f
         else if 1 / 2 < r then f + 1
         else if even f then f else f + 1)"

fun pad_digits :: "nat \<Rightarrow> nat \<Rightarrow> string" where
  "pad_digits 0 k = []"
| "pad_digits (Suc n) k = pad_digits n (k div 10) @ [digit_char (k mod 10)]"

definition format_fixed :: "nat \<Rightarrow> real \<Rightarrow> string" where
  "format_fixed p x =
     (let m = nat (round_half_even (\<bar>x\<bar> * 10 ^ p))
      in (if x < 0 then ''-'' else [])
         @ nat_digits (m div 10 ^ p)
         @ (if p = 0 then [] else CHR ''.'' # pad_digits p (m mod 10 ^ p)))"

definition format_f :: "int \<Rightarrow> pyfloat \<Rightarrow> error + string" where
  "format_f mantissa_length x =
     (if mantissa_length < 0 then Inl (ValueError ''Format specifier missing precision'')
      else if 2 ^ 63 \<le> mantissa_length then
        Inl (ValueError ''Too many decimal digits in format string'')
      else if 2 ^ 31 \<le> mantissa_length then Inl (ValueError ''precision too big'')
      else
        (case x of
           Finite r \<Rightarrow> Inr (format_fixed (nat mantissa_length) r)
         | PosInf \<Rightarrow> Inr ''inf''
         | NegInf \<Rightarrow> Inr ''-inf''
         | NaN \<Rightarrow> Inr ''nan''))"


definition digit_chars :: "char set" where
  "digit_chars = set ''0123456789''"

definition fixed_point_chars :: "char set" where
  "fixed_point_chars = {CHR ''-'', CHR ''.''} \<union> digit_chars"






subsection \<open>The sampling driver\<close>

text \<open>
  The program's effects are on the file system and on standard output; it ends by an exit
  status or by an exception that nothing catches. Failures of the operating system when
  the file is opened or written, and the exhaustion of memory by a very long
  \<^verbatim>\<open>range\<close>, are not modelled.
\<close>

record world =
  files :: "string \<rightharpoonup> string"
  stdout :: string

datatype outcome = Exit int | Raised error

definition newline :: string where
  "newline = [CHR 0x0A]"

text \<open>
  The \<^verbatim>\<open>for t in range(0, sample_count)\<close> loop of \<^verbatim>\<open>main\<close>, over the
  list of the remaining indices, with the two lists it appends to. Within one iteration the
  operations are made in the order of the source, and the first exception ends the loop.
  Both calls of the loss function leave out the band, so it is the default one.

  The last argument and the first component of the result are not data of the program:
  they record, in order, every call of \<^verbatim>\<open>compute_free_space_loss\<close> that the loop
  makes, with the distance and the band the call is made with, also in a run that ends
  by an exception.
\<close>

type_synonym call = "pyfloat \<times> string"

fun main_loop ::
  "pynum \<Rightarrow> pynum \<Rightarrow> pynum \<Rightarrow> pynum \<Rightarrow> int \<Rightarrow> nat list \<Rightarrow> string list \<Rightarrow> string list
     \<Rightarrow> call list \<Rightarrow> call list \<times> (error + (string list \<times> string list))" where
  "main_loop ap_distance train_distance train_velocity granularity mantissa_length []
     AP1_signal_losses AP2_signal_losses calls =
     (calls, Inr (AP1_signal_losses, AP2_signal_losses))"
| "main_loop ap_distance train_distance train_velocity granularity mantissa_length (t # ts)
     AP1_signal_losses AP2_signal_losses calls =
     (case as_float (PyInt (int t)) of
        Inl e \<Rightarrow> (calls, Inl e)
      | Inr float_t \<Rightarrow>
      case py_mul (PyFloat float_t) granularity of
        Inl e \<Rightarrow> (calls, Inl e)
      | Inr time \<Rightarrow>
      case current_signal_distance 1 train_distance ap_distance time train_velocity of
        Inl e \<Rightarrow> (calls, Inl e)
      | Inr AP1_distance \<Rightarrow>
      case compute_free_space_loss_float AP1_distance default_band of
        Inl e \<Rightarrow> (calls @ [(AP1_distance, default_band)], Inl e)
      | Inr loss1 \<Rightarrow>
      case format_f mantissa_length loss1 of
        Inl e \<Rightarrow> (calls @ [(AP1_distance, default_band)], Inl e)
      | Inr AP1_signal_loss \<Rightarrow>
      case current_signal_distance 2 train_distance ap_distance time train_velocity of
        Inl e \<Rightarrow> (calls @ [(AP1_distance, default_band)], Inl e)
      | Inr AP2_distance \<Rightarrow>
      case compute_free_space_loss_float AP2_distance default_band of
        Inl e \<Rightarrow>
          (calls @ [(AP1_distance, default_band), (AP2_distance, default_band)], Inl e)
      | Inr loss2 \<Rightarrow>
      case format_f mantissa_length loss2 of
        Inl e \<Rightarrow>
          (calls @ [(AP1_distance, default_band), (AP2_distance, default_band)], Inl e)
      | Inr AP2_signal_loss \<Rightarrow>
          main_loop ap_distance train_distance train_velocity granularity mantissa_length ts
            (AP1_signal_losses @ [AP1_signal_loss]) (AP2_signal_losses @ [AP2_signal_loss])
            (calls @ [(AP1_distance, default_band), (AP2_distance, default_band)]))"

text \<open>
  \<^verbatim>\<open>for loss in losses: f.write(loss + " ")\<close>, on the text written so far.
\<close>

fun write_losses :: "string \<Rightarrow> string list \<Rightarrow> string" where
  "write_losses f [] = f"
| "write_losses f (loss # losses) = write_losses (f @ (loss @ '' '')) losses"

text \<open>
  \<^verbatim>\<open>main\<close>: the file is opened with mode \<^verbatim>\<open>"w"\<close> only after the loop,
  so it starts empty whatever it held; \<^verbatim>\<open>sys.exit(0)\<close> ends the run.
\<close>

definition main ::
  "pynum \<Rightarrow> pynum \<Rightarrow> pynum \<Rightarrow> pynum \<Rightarrow> int \<Rightarrow> int \<Rightarrow> world \<Rightarrow> world \<times> outcome" where
  "main ap_distance train_distance train_velocity granularity sample_count mantissa_length w =
     (case snd (main_loop ap_distance train_distance train_velocity granularity mantissa_length
             [0..<nat sample_count] [] [] []) of
        Inl e \<Rightarrow> (w, Raised e)
      | Inr (AP1_signal_losses, AP2_signal_losses) \<Rightarrow>
          (let f = [];
               f = write_losses f AP1_signal_losses;
               f = f @ newline;
               f = write_losses f AP2_signal_losses
           in (w\<lparr>files := (files w)(''wifi_signal_simulator.out'' \<mapsto> f)\<rparr>, Exit 0)))"

text \<open>
  The \<^verbatim>\<open>print\<close> statement writes its argument and a newline to standard output.
  \<^verbatim>\<open>usage\<close> reads the script name from \<^verbatim>\<open>sys.argv[0]\<close>.
\<close>

definition print :: "string \<Rightarrow> world \<Rightarrow> world" where
  "print s w = w\<lparr>stdout := stdout w @ s @ newline\<rparr>"

definition usage :: "string list \<Rightarrow> world \<Rightarrow> world" where
  "usage argv w =
     (let w = print (''Usage: '' @ newline) w;
          w = print (argv ! 0 @ '' <inter-AP-distance> <train-AP-distance> <train-velocity>'') w;
          w = print ''Suggested values for execution: '' w;
          w = print (argv ! 0 @ '' 100 10 92'') w
      in w)"

text \<open>
  The \<^verbatim>\<open>__main__\<close> block. \<^verbatim>\<open>sys.argv\<close> is the script name followed by
  the command-line arguments. Python's \<^verbatim>\<open>int\<close> on a string is the parameter
  \<open>int_of\<close>. The three conversions are made from left to right. Only a
  \<^verbatim>\<open>ValueError\<close>, from a conversion or from \<^verbatim>\<open>main\<close>, prints the usage
  before it is raised again; any other exception and the exit of \<^verbatim>\<open>main\<close> pass
  through the \<^verbatim>\<open>try\<close> statement.
\<close>

definition reraise :: "string list \<Rightarrow> world \<Rightarrow> error \<Rightarrow> world \<times> outcome" where
  "reraise argv w v =
     (case v of
        ValueError msg \<Rightarrow> (usage argv w, Raised v)
      | OverflowError \<Rightarrow> (w, Raised v))"

definition script ::
  "(string \<Rightarrow> error + int) \<Rightarrow> string \<Rightarrow> string list \<Rightarrow> world \<Rightarrow> world \<times> outcome" where
  "script int_of argv0 args w =
     (let argv = argv0 # args in
      if length argv \<noteq> 4 then (usage argv w, Exit 1)
      else
        case int_of (argv ! 1) of
          Inl v \<Rightarrow> reraise argv w v
        | Inr a1 \<Rightarrow>
        case int_of (argv ! 2) of
          Inl v \<Rightarrow> reraise argv w v
        | Inr a2 \<Rightarrow>
        case int_of (argv ! 3) of
          Inl v \<Rightarrow> reraise argv w v
        | Inr a3 \<Rightarrow>
        case main (PyInt a1) (PyInt a2) (PyInt a3) (PyFloat (Finite 0.001)) 5000 3 w of
          (w', Raised v) \<Rightarrow> reraise argv w' v
        | (w', Exit n) \<Rightarrow> (w', Exit n))"

text \<open>
  For the statements: the real value of a number, and whether a number is an int or a
  finite float inside the range of the floats.
\<close>

fun real_of :: "pynum \<Rightarrow> real" where
  "real_of (PyInt n) = real_of_int n"
| "real_of (PyFloat (Finite x)) = x"
| "real_of (PyFloat x) = 0"

fun in_range :: "pynum \<Rightarrow> bool" where
  "in_range (PyInt n) = (\<bar>real_of_int n\<bar> < float_limit)"
| "in_range (PyFloat (Finite x)) = (\<bar>x\<bar> < float_limit)"
| "in_range (PyFloat x) = False"

text \<open>
  For the statements, in the words of the specification: the distances to the two access
  points at sample \<open>t\<close>, the loss in band "2.4" at a distance, and the condition that every
  intermediate result of sample \<open>t\<close> is inside the range of the floats.
\<close>

definition spec_distance_1 :: "pynum \<Rightarrow> pynum \<Rightarrow> pynum \<Rightarrow> nat \<Rightarrow> real" where
  "spec_distance_1 td tv g t = norm2 (real_of td) (real_of tv * (real t * real_of g))"

definition spec_distance_2 :: "pynum \<Rightarrow> pynum \<Rightarrow> pynum \<Rightarrow> pynum \<Rightarrow> nat \<Rightarrow> real" where
  "spec_distance_2 apd td tv g t =
     norm2 (real_of td) (real_of apd - real_of tv * (real t * real_of g))"

definition spec_loss :: "real \<Rightarrow> real" where
  "spec_loss d = - 20 * log 10 0.12491 + 20 * log 10 d + 21.984"

definition sample_in_range :: "pynum \<Rightarrow> pynum \<Rightarrow> pynum \<Rightarrow> pynum \<Rightarrow> nat \<Rightarrow> bool" where
  "sample_in_range apd td tv g t \<longleftrightarrow>
     real t < float_limit
     \<and> \<bar>real t * real_of g\<bar> < float_limit
     \<and> \<bar>real_of tv * (real t * real_of g)\<bar> < float_limit
     \<and> \<bar>real_of apd - real_of tv * (real t * real_of g)\<bar> < float_limit
     \<and> spec_distance_1 td tv g t < float_limit
     \<and> spec_distance_2 apd td tv g t < float_limit"

text \<open>
  The token that the driver writes for a recorded call: the result of the loss function at
  the distance and the band of the call, formatted.
\<close>

definition token_of_call :: "int \<Rightarrow> call \<Rightarrow> error + string" where
  "token_of_call m c =
     (case compute_free_space_loss_float (fst c) (snd c) of
        Inl e \<Rightarrow> Inl e
      | Inr loss \<Rightarrow> format_f m loss)"

text \<open>
  For the proofs: one iteration of the loop on its own, with the calls it records and the
  two tokens it appends.
\<close>

definition sample ::
  "pynum \<Rightarrow> pynum \<Rightarrow> pynum \<Rightarrow> pynum \<Rightarrow> int \<Rightarrow> nat \<Rightarrow> call list \<times> (error + (string \<times> string))" where
  "sample apd td tv g m t =
     (case as_float (PyInt (int t)) of
        Inl e \<Rightarrow> ([], Inl e)
      | Inr float_t \<Rightarrow>
      case py_mul (PyFloat float_t) g of
        Inl e \<Rightarrow> ([], Inl e)
      | Inr time \<Rightarrow>
      case current_signal_distance 1 td apd time tv of
        Inl e \<Rightarrow> ([], Inl e)
      | Inr d1 \<Rightarrow>
      case compute_free_space_loss_float d1 default_band of
        Inl e \<Rightarrow> ([(d1, default_band)], Inl e)
      | Inr loss1 \<Rightarrow>
      case format_f m loss1 of
        Inl e \<Rightarrow> ([(d1, default_band)], Inl e)
      | Inr s1 \<Rightarrow>
      case current_signal_distance 2 td apd time tv of
        Inl e \<Rightarrow> ([(d1, default_band)], Inl e)
      | Inr d2 \<Rightarrow>
      case compute_free_space_loss_float d2 default_band of
        Inl e \<Rightarrow> ([(d1, default_band), (d2, default_band)], Inl e)
      | Inr loss2 \<Rightarrow>
      case format_f m loss2 of
        Inl e \<Rightarrow> ([(d1, default_band), (d2, default_band)], Inl e)
      | Inr s2 \<Rightarrow> ([(d1, default_band), (d2, default_band)], Inr (s1, s2)))"


section \<open>Properties of the numbers\<close>

lemma float_limit_pos: "0 < float_limit"
  by (simp add: float_limit_def)

lemma overflow_in_range: "\<bar>x\<bar> < float_limit \<Longrightarrow> overflow x = Finite x"
  by (auto simp add: overflow_def)

lemma as_float_in_range: "in_range a \<Longrightarrow> as_float a = Inr (Finite (real_of a))"
  by (cases a rule: real_of.cases) auto

lemma py_mul_in_range:
  assumes "in_range a" and "in_range b" and "\<bar>real_of a * real_of b\<bar> < float_limit"
  shows "\<exists>c. py_mul a b = Inr c \<and> in_range c \<and> real_of c = real_of a * real_of b"
  using assms
  by (cases a rule: real_of.cases; cases b rule: real_of.cases)
    (auto simp add: overflow_in_range)

lemma py_sub_in_range:
  assumes "in_range a" and "in_range b" and "\<bar>real_of a - real_of b\<bar> < float_limit"
  shows "\<exists>c. py_sub a b = Inr c \<and> in_range c \<and> real_of c = real_of a - real_of b"
  using assms
  by (cases a rule: real_of.cases; cases b rule: real_of.cases)
    (auto simp add: overflow_in_range)

lemma hypot_in_range:
  assumes "in_range a" and "in_range b" and "norm2 (real_of a) (real_of b) < float_limit"
  shows "hypot a b = Inr (Finite (norm2 (real_of a) (real_of b)))"
  using assms by (simp add: hypot_def as_float_in_range)

lemma py_mul_float_left:
  assumes "in_range a" and "\<bar>s * real_of a\<bar> < float_limit"
  shows "py_mul (PyFloat (Finite s)) a = Inr (PyFloat (Finite (s * real_of a)))"
  using assms by (cases a rule: real_of.cases) (auto simp add: overflow_in_range)

lemma norm2_pos: "a \<noteq> 0 \<Longrightarrow> 0 < norm2 a b"
proof -
  assume "a \<noteq> 0"
  then have "0 < a\<^sup>2" by simp
  moreover have "0 \<le> b\<^sup>2" by simp
  ultimately have "0 < a\<^sup>2 + b\<^sup>2" by linarith
  then show ?thesis by (simp add: norm2_def)
qed

lemma norm2_le_sum: "norm2 a b \<le> \<bar>a\<bar> + \<bar>b\<bar>"
  unfolding norm2_def by (rule sqrt_sum_squares_le_sum_abs)

section \<open>Properties of the two pure functions\<close>

lemma loss_of_positive:
  "0 < d \<Longrightarrow> compute_free_space_loss d ''2.4'' =
     Inr (- 20 * log 10 0.12491 + 20 * log 10 d + 21.984)"
  by (simp add: compute_free_space_loss_def log10_def constant_factor_def)

lemma distance_1_in_range:
  assumes "in_range d" and "in_range t" and "in_range v"
    and "\<bar>real_of v * real_of t\<bar> < float_limit"
    and "norm2 (real_of d) (real_of v * real_of t) < float_limit"
  shows "current_signal_distance 1 d apd t v =
           Inr (Finite (norm2 (real_of d) (real_of v * real_of t)))"
proof -
  from py_mul_in_range [OF assms(3) assms(2) assms(4)] obtain b where
    b: "py_mul v t = Inr b" "in_range b" "real_of b = real_of v * real_of t"
    by blast
  from assms(5) b(3) have "norm2 (real_of d) (real_of b) < float_limit" by simp
  from hypot_in_range [OF assms(1) b(2) this] b show ?thesis
    by (simp add: current_signal_distance_def)
qed

lemma distance_2_in_range:
  assumes "in_range d" and "in_range apd" and "in_range t" and "in_range v"
    and "\<bar>real_of v * real_of t\<bar> < float_limit"
    and "\<bar>real_of apd - real_of v * real_of t\<bar> < float_limit"
    and "norm2 (real_of d) (real_of apd - real_of v * real_of t) < float_limit"
  shows "current_signal_distance 2 d apd t v =
           Inr (Finite (norm2 (real_of d) (real_of apd - real_of v * real_of t)))"
proof -
  from py_mul_in_range [OF assms(4) assms(3) assms(5)] obtain p where
    p: "py_mul v t = Inr p" "in_range p" "real_of p = real_of v * real_of t"
    by blast
  from assms(6) p(3) have "\<bar>real_of apd - real_of p\<bar> < float_limit" by simp
  from py_sub_in_range [OF assms(2) p(2) this] obtain b where
    b: "py_sub apd p = Inr b" "in_range b" "real_of b = real_of apd - real_of p"
    by blast
  from assms(7) b(3) p(3) have "norm2 (real_of d) (real_of b) < float_limit" by simp
  from hypot_in_range [OF assms(1) b(2) this] p b show ?thesis
    by (simp add: current_signal_distance_def)
qed


text \<open>
  C1, as the specification states it: for all real arguments the distance function returns
  the Euclidean norm. An int beyond the range of the floats is a real argument, and with
  such a cross-track distance \<^verbatim>\<open>hypot\<close> raises \<^verbatim>\<open>OverflowError\<close>.
\<close>

theorem distance_overflow_counterexample:
  "current_signal_distance 1 (PyInt (10 ^ 400)) (PyInt 100) (PyFloat (Finite 0)) (PyInt 92) =
     Inl OverflowError"
  by (simp add: current_signal_distance_def hypot_def float_limit_def overflow_def)

text \<open>
  C1, amended. For all cross-track distance, inter-AP distance, elapsed time and velocity
  that are ints or finite floats inside the range of the floats, and such that
  velocity * time is inside the range: the distance function with AP 1 returns the
  Euclidean norm of (cross-track distance, velocity * time) when that norm is inside the
  range, and with AP 2 the Euclidean norm of (cross-track distance, inter-AP distance -
  velocity * time) when the difference and that norm are inside the range. The norm is
  the modulus of the complex number with these two coordinates.
\<close>

theorem distance_is_euclidean_norm:
  assumes "in_range d" and "in_range apd" and "in_range t" and "in_range v"
    and "\<bar>real_of v * real_of t\<bar> < float_limit"
  shows "(norm2 (real_of d) (real_of v * real_of t) < float_limit \<longrightarrow>
            current_signal_distance 1 d apd t v =
              Inr (Finite (norm2 (real_of d) (real_of v * real_of t))))
       \<and> (\<bar>real_of apd - real_of v * real_of t\<bar> < float_limit
            \<and> norm2 (real_of d) (real_of apd - real_of v * real_of t) < float_limit \<longrightarrow>
            current_signal_distance 2 d apd t v =
              Inr (Finite (norm2 (real_of d) (real_of apd - real_of v * real_of t))))
       \<and> norm2 (real_of d) (real_of v * real_of t) =
            cmod (Complex (real_of d) (real_of v * real_of t))
       \<and> norm2 (real_of d) (real_of apd - real_of v * real_of t) =
            cmod (Complex (real_of d) (real_of apd - real_of v * real_of t))"
  using distance_1_in_range [OF assms(1) assms(3) assms(4) assms(5)]
    distance_2_in_range [OF assms(1) assms(2) assms(3) assms(4) assms(5)]
  by (simp add: norm2_def cmod_def)

theorem distance_is_euclidean_norm_witness:
  "in_range (PyInt 10) \<and> in_range (PyInt 100) \<and> in_range (PyFloat (Finite 5)) \<and> in_range (PyInt 92)
   \<and> \<bar>real_of (PyInt 92) * real_of (PyFloat (Finite 5))\<bar> < float_limit
   \<and> norm2 10 460 < float_limit \<and> \<bar>100 - 460\<bar> < float_limit \<and> norm2 10 (- 360) < float_limit
   \<and> current_signal_distance 1 (PyInt 10) (PyInt 100) (PyFloat (Finite 5)) (PyInt 92) =
        Inr (Finite (norm2 10 460))
   \<and> current_signal_distance 2 (PyInt 10) (PyInt 100) (PyFloat (Finite 5)) (PyInt 92) =
        Inr (Finite (norm2 10 (- 360)))"
proof -
  have r: "in_range (PyInt 10)" "in_range (PyInt 100)" "in_range (PyFloat (Finite 5))"
    "in_range (PyInt 92)"
    by (simp_all add: float_limit_def)
  have p: "\<bar>real_of (PyInt 92) * real_of (PyFloat (Finite 5))\<bar> < float_limit"
    by (simp add: float_limit_def)
  have big: "(1000::real) < float_limit" by (simp add: float_limit_def)
  have n1: "norm2 10 460 < float_limit"
    using norm2_le_sum [of 10 460] big by simp
  have n2: "norm2 10 (- 360) < float_limit"
    using norm2_le_sum [of 10 "- 360"] big by simp
  have q: "\<bar>100 - 460 :: real\<bar> < float_limit" using big by simp
  from distance_is_euclidean_norm [OF r(1) r(2) r(3) r(4) p] n1 n2 q
  have "current_signal_distance 1 (PyInt 10) (PyInt 100) (PyFloat (Finite 5)) (PyInt 92) =
        Inr (Finite (norm2 10 460))"
    and "current_signal_distance 2 (PyInt 10) (PyInt 100) (PyFloat (Finite 5)) (PyInt 92) =
        Inr (Finite (norm2 10 (- 360)))"
    by simp_all
  with r p n1 n2 q show ?thesis by blast
qed

text \<open>
  C2. For a strictly positive distance the loss is
  \<open>-20 * log10 wavelength + 20 * log10 distance + 21.984\<close>, with wavelength 0.12491 for
  band "2.4" and 0.05996 for band "5.0".
\<close>

theorem free_space_loss_formula:
  assumes "0 < d"
  shows "compute_free_space_loss d ''2.4'' =
           Inr (- 20 * log 10 0.12491 + 20 * log 10 d + 21.984)
         \<and> compute_free_space_loss d ''5.0'' =
           Inr (- 20 * log 10 0.05996 + 20 * log 10 d + 21.984)"
  using assms by (simp add: compute_free_space_loss_def log10_def constant_factor_def)

theorem free_space_loss_formula_witness:
  "(0::real) < 7
   \<and> compute_free_space_loss 7 ''2.4'' = Inr (- 20 * log 10 0.12491 + 20 * log 10 7 + 21.984)
   \<and> compute_free_space_loss 7 ''5.0'' = Inr (- 20 * log 10 0.05996 + 20 * log 10 7 + 21.984)"
  using free_space_loss_formula [of 7] by simp

text \<open>
  C3, as the specification states it: a non-positive distance is rejected by an
  invalid-argument error of the loss function itself, not by the domain error of the
  logarithm. The source has no check of the distance: at distance 0 and band "2.4" the
  result is the error raised by \<open>log10\<close>.
\<close>

theorem nonpositive_distance_counterexample:
  "compute_free_space_loss 0 ''2.4'' = log10 0
   \<and> log10 0 = Inl (ValueError ''math domain error'')"
  by (simp add: compute_free_space_loss_def log10_def)

text \<open>
  C3, amended. For every non-positive distance the loss function fails. For a band in
  {"2.4", "5.0"} the error is the domain error that \<open>log10\<close> raises on the distance,
  passed on unchanged; for any other band it is the unsupported-band error, raised before
  the distance is looked at.
\<close>

theorem nonpositive_distance_fails:
  assumes "d \<le> 0"
  shows "compute_free_space_loss d band =
           (if band = ''2.4'' \<or> band = ''5.0'' then log10 d
            else Inl (ValueError
                   (band @ '' is an unsupported frequency or is incorrectly formatted.'')))
         \<and> log10 d = Inl (ValueError ''math domain error'')"
  using assms by (simp add: compute_free_space_loss_def log10_def)

theorem nonpositive_distance_fails_witness:
  "(- 3::real) \<le> 0
   \<and> compute_free_space_loss (- 3) ''5.0'' = Inl (ValueError ''math domain error'')
   \<and> log10 (- 3) = Inl (ValueError ''math domain error'')"
  using nonpositive_distance_fails [of "- 3" "''5.0''"] by simp

text \<open>
  C4. An AP number other than 1 and 2 makes the distance function raise its
  \<^verbatim>\<open>ValueError\<close>, whatever the other arguments; a band other than "2.4" and "5.0"
  makes the loss function raise its \<^verbatim>\<open>ValueError\<close>, whatever the distance.
\<close>

theorem invalid_arguments_raise:
  "(n \<noteq> 1 \<and> n \<noteq> 2 \<longrightarrow>
      current_signal_distance n d apd t v =
        Inl (ValueError (str_int n @ '' must be either 1 or 2.'')))
   \<and> (band \<noteq> ''2.4'' \<and> band \<noteq> ''5.0'' \<longrightarrow>
      compute_free_space_loss x band =
        Inl (ValueError (band @ '' is an unsupported frequency or is incorrectly formatted.'')))"
  by (simp add: current_signal_distance_def compute_free_space_loss_def)

theorem invalid_arguments_raise_witness:
  "current_signal_distance 3 (PyInt 10) (PyInt 100) (PyFloat (Finite 0)) (PyInt 92) =
       Inl (ValueError ''3 must be either 1 or 2.'')
   \<and> current_signal_distance (- 1) (PyInt 10) (PyInt 100) (PyFloat (Finite 0)) (PyInt 92) =
       Inl (ValueError ''-1 must be either 1 or 2.'')
   \<and> compute_free_space_loss 5 ''3.0'' =
       Inl (ValueError ''3.0 is an unsupported frequency or is incorrectly formatted.'')"
  using invalid_arguments_raise [where n = 3 and band = "''3.0''" and d = "PyInt 10"
      and apd = "PyInt 100" and t = "PyFloat (Finite 0)" and v = "PyInt 92" and x = 5]
    invalid_arguments_raise [where n = "- 1" and band = "''3.0''" and d = "PyInt 10"
      and apd = "PyInt 100" and t = "PyFloat (Finite 0)" and v = "PyInt 92" and x = 5]
  by (simp add: str_int_def nat_digits.simps digit_char_def)

text \<open>
  In exact arithmetic, for each band in {"2.4", "5.0"}, the loss is strictly increasing in
  the distance on the strictly positive distances. The floats round each result, and two
  neighbouring floats can have the same rounded loss: this lemma says nothing about the
  rounded results.
\<close>

lemma loss_strictly_increasing_in_exact_arithmetic:
  assumes "0 < d1" and "d1 < d2" and "band = ''2.4'' \<or> band = ''5.0''"
  shows "\<exists>l1 l2. compute_free_space_loss d1 band = Inr l1
           \<and> compute_free_space_loss d2 band = Inr l2 \<and> l1 < l2"
  using assms by (auto simp add: compute_free_space_loss_def log10_def)

text \<open>
  C6. At every strictly positive distance the loss in band "5.0" is strictly greater than
  the loss in band "2.4".
\<close>

theorem shorter_wavelength_higher_loss:
  assumes "0 < d"
  shows "\<exists>l24 l50. compute_free_space_loss d ''2.4'' = Inr l24
           \<and> compute_free_space_loss d ''5.0'' = Inr l50 \<and> l24 < l50"
  using assms by (simp add: compute_free_space_loss_def log10_def)

theorem shorter_wavelength_higher_loss_witness:
  "(0::real) < 10
   \<and> (\<exists>l24 l50. compute_free_space_loss 10 ''2.4'' = Inr l24
        \<and> compute_free_space_loss 10 ''5.0'' = Inr l50 \<and> l24 < l50)"
  using shorter_wavelength_higher_loss [of 10] by simp


section \<open>Properties of the formatting\<close>













lemma fixed_point_chars_no_space: "CHR '' '' \<notin> fixed_point_chars"
  by (simp add: fixed_point_chars_def digit_chars_def)

lemma fixed_point_chars_no_newline: "CHR 0x0A \<notin> fixed_point_chars"
  by (simp add: fixed_point_chars_def digit_chars_def)



lemma format_f_finite:
  "0 \<le> m \<Longrightarrow> m < 2 ^ 31 \<Longrightarrow> format_f m (Finite r) = Inr (format_fixed (nat m) r)"
  by (simp add: format_f_def)














section \<open>Properties of the driver\<close>

lemma main_loop_Cons:
  "main_loop apd td tv g m (t # ts) l1 l2 cs =
     (case sample apd td tv g m t of
        (new, Inl e) \<Rightarrow> (cs @ new, Inl e)
      | (new, Inr (s1, s2)) \<Rightarrow> main_loop apd td tv g m ts (l1 @ [s1]) (l2 @ [s2]) (cs @ new))"
  by (simp add: sample_def split: sum.splits)

declare main_loop.simps(2) [simp del]

lemma sample_bands: "list_all (\<lambda>c. snd c = ''2.4'') (fst (sample apd td tv g m t))"
  by (simp add: sample_def default_band_def split: sum.splits)

lemma sample_success:
  assumes "sample apd td tv g m t = (new, Inr (s1, s2))"
  shows "\<exists>c1 c2. new = [c1, c2] \<and> snd c1 = ''2.4'' \<and> snd c2 = ''2.4''
           \<and> token_of_call m c1 = Inr s1 \<and> token_of_call m c2 = Inr s2"
proof -
  from assms obtain d1 loss1 d2 loss2 where
    n: "new = [(d1, ''2.4''), (d2, ''2.4'')]"
    and l1: "compute_free_space_loss_float d1 ''2.4'' = Inr loss1"
    and f1: "format_f m loss1 = Inr s1"
    and l2: "compute_free_space_loss_float d2 ''2.4'' = Inr loss2"
    and f2: "format_f m loss2 = Inr s2"
    by (auto simp add: sample_def default_band_def split: sum.splits)
  have "token_of_call m (d1, ''2.4'') = Inr s1" "token_of_call m (d2, ''2.4'') = Inr s2"
    using l1 f1 l2 f2 by (simp_all add: token_of_call_def)
  with n show ?thesis by auto
qed

lemma spec_distance_1_pos: "real_of td \<noteq> 0 \<Longrightarrow> 0 < spec_distance_1 td tv g t"
  unfolding spec_distance_1_def by (rule norm2_pos)

lemma spec_distance_2_pos: "real_of td \<noteq> 0 \<Longrightarrow> 0 < spec_distance_2 apd td tv g t"
  unfolding spec_distance_2_def by (rule norm2_pos)

lemma loss_float_of_positive:
  "0 < d \<Longrightarrow> compute_free_space_loss_float (Finite d) default_band = Inr (Finite (spec_loss d))"
  by (simp add: compute_free_space_loss_float_def default_band_def loss_of_positive
      spec_loss_def)

lemma sample_time:
  assumes "in_range g" and "sample_in_range apd td tv g t"
  shows "as_float (PyInt (int t)) = Inr (Finite (real t))"
    and "py_mul (PyFloat (Finite (real t))) g = Inr (PyFloat (Finite (real t * real_of g)))"
proof -
  from assms(2) have t: "real t < float_limit" and tg: "\<bar>real t * real_of g\<bar> < float_limit"
    by (simp_all add: sample_in_range_def)
  from t show "as_float (PyInt (int t)) = Inr (Finite (real t))" by simp
  from assms(1) tg show
    "py_mul (PyFloat (Finite (real t))) g = Inr (PyFloat (Finite (real t * real_of g)))"
    by (rule py_mul_float_left)
qed

lemma sample_distances:
  assumes "in_range apd" and "in_range td" and "in_range tv"
    and "sample_in_range apd td tv g t"
  shows "current_signal_distance 1 td apd (PyFloat (Finite (real t * real_of g))) tv =
           Inr (Finite (spec_distance_1 td tv g t))"
    and "current_signal_distance 2 td apd (PyFloat (Finite (real t * real_of g))) tv =
           Inr (Finite (spec_distance_2 apd td tv g t))"
proof -
  let ?time = "PyFloat (Finite (real t * real_of g))"
  from assms(4) have r: "in_range ?time"
    and p: "\<bar>real_of tv * real_of ?time\<bar> < float_limit"
    and q: "\<bar>real_of apd - real_of tv * real_of ?time\<bar> < float_limit"
    and d1: "norm2 (real_of td) (real_of tv * real_of ?time) < float_limit"
    and d2: "norm2 (real_of td) (real_of apd - real_of tv * real_of ?time) < float_limit"
    by (simp_all add: sample_in_range_def spec_distance_1_def spec_distance_2_def)
  from distance_1_in_range [OF assms(2) r assms(3) p d1]
  show "current_signal_distance 1 td apd ?time tv = Inr (Finite (spec_distance_1 td tv g t))"
    by (simp add: spec_distance_1_def)
  from distance_2_in_range [OF assms(2) assms(1) r assms(3) p q d2]
  show "current_signal_distance 2 td apd ?time tv =
          Inr (Finite (spec_distance_2 apd td tv g t))"
    by (simp add: spec_distance_2_def)
qed

lemma sample_valid:
  assumes "in_range apd" and "in_range td" and "in_range tv" and "in_range g"
    and "real_of td \<noteq> 0" and "0 \<le> m" and "m < 2 ^ 31"
    and "sample_in_range apd td tv g t"
  shows "sample apd td tv g m t =
    ([(Finite (spec_distance_1 td tv g t), ''2.4''),
      (Finite (spec_distance_2 apd td tv g t), ''2.4'')],
     Inr (format_fixed (nat m) (spec_loss (spec_distance_1 td tv g t)),
          format_fixed (nat m) (spec_loss (spec_distance_2 apd td tv g t))))"
proof -
  note t = sample_time [OF assms(4) assms(8)]
  note d = sample_distances [OF assms(1) assms(2) assms(3) assms(8)]
  have l1: "compute_free_space_loss_float (Finite (spec_distance_1 td tv g t)) ''2.4'' =
      Inr (Finite (spec_loss (spec_distance_1 td tv g t)))"
    using loss_float_of_positive [OF spec_distance_1_pos [OF assms(5)]]
    by (simp add: default_band_def)
  have l2: "compute_free_space_loss_float (Finite (spec_distance_2 apd td tv g t)) ''2.4'' =
      Inr (Finite (spec_loss (spec_distance_2 apd td tv g t)))"
    using loss_float_of_positive [OF spec_distance_2_pos [OF assms(5)]]
    by (simp add: default_band_def)
  note f = format_f_finite [OF assms(6) assms(7)]
  show ?thesis
    unfolding sample_def
    by (simp only: t d l1 l2 f sum.case default_band_def)
qed

lemma main_loop_valid:
  assumes "in_range apd" and "in_range td" and "in_range tv" and "in_range g"
    and "real_of td \<noteq> 0" and "0 \<le> m" and "m < 2 ^ 31"
  shows "\<forall>t \<in> set ts. sample_in_range apd td tv g t \<Longrightarrow>
    main_loop apd td tv g m ts l1 l2 cs =
      (cs @ concat (map (\<lambda>t. [(Finite (spec_distance_1 td tv g t), ''2.4''),
                              (Finite (spec_distance_2 apd td tv g t), ''2.4'')]) ts),
       Inr (l1 @ map (\<lambda>t. format_fixed (nat m) (spec_loss (spec_distance_1 td tv g t))) ts,
            l2 @ map (\<lambda>t. format_fixed (nat m) (spec_loss (spec_distance_2 apd td tv g t))) ts))"
proof (induction ts arbitrary: l1 l2 cs)
  case Nil
  show ?case by simp
next
  case (Cons t ts)
  from Cons.prems have t: "sample_in_range apd td tv g t"
    and ts: "\<forall>t \<in> set ts. sample_in_range apd td tv g t"
    by simp_all
  show ?case
    unfolding main_loop_Cons sample_valid [OF assms t]
    by (simp add: Cons.IH [OF ts])
qed

lemma main_loop_run:
  "main_loop apd td tv g m ts a1 a2 cs = (cs', r) \<Longrightarrow>
     \<exists>new. cs' = cs @ new \<and> list_all (\<lambda>c. snd c = ''2.4'') new
       \<and> (\<forall>l1 l2. r = Inr (l1, l2) \<longrightarrow>
            (\<exists>ps e1 e2. l1 = a1 @ e1 \<and> l2 = a2 @ e2
               \<and> new = concat (map (\<lambda>p. [fst p, snd p]) ps)
               \<and> list_all2 (\<lambda>p s. token_of_call m (fst p) = Inr s) ps e1
               \<and> list_all2 (\<lambda>p s. token_of_call m (snd p) = Inr s) ps e2
               \<and> length ps = length ts))"
proof (induction ts arbitrary: a1 a2 cs)
  case Nil
  then show ?case by auto
next
  case (Cons t ts)
  obtain new0 r0 where s: "sample apd td tv g m t = (new0, r0)" by (cases "sample apd td tv g m t")
  from sample_bands [of apd td tv g m t] s have b0: "list_all (\<lambda>c. snd c = ''2.4'') new0"
    by simp
  show ?case
  proof (cases r0)
    case (Inl e)
    with Cons.prems s have "cs' = cs @ new0" "r = Inl e" by (simp_all add: main_loop_Cons)
    with b0 show ?thesis by auto
  next
    case (Inr p)
    obtain s1 s2 where p: "p = (s1, s2)" by (cases p)
    from s Inr p have s': "sample apd td tv g m t = (new0, Inr (s1, s2))" by simp
    from sample_success [OF s'] obtain c1 c2 where
      c: "new0 = [c1, c2]" "token_of_call m c1 = Inr s1" "token_of_call m c2 = Inr s2"
      by blast
    from Cons.prems s' have
      rest: "main_loop apd td tv g m ts (a1 @ [s1]) (a2 @ [s2]) (cs @ new0) = (cs', r)"
      by (simp add: main_loop_Cons)
    from Cons.IH [OF rest] obtain new' where
      n: "cs' = (cs @ new0) @ new'" "list_all (\<lambda>c. snd c = ''2.4'') new'"
      and ok: "\<And>l1 l2. r = Inr (l1, l2) \<Longrightarrow>
            (\<exists>ps e1 e2. l1 = (a1 @ [s1]) @ e1 \<and> l2 = (a2 @ [s2]) @ e2
               \<and> new' = concat (map (\<lambda>p. [fst p, snd p]) ps)
               \<and> list_all2 (\<lambda>p s. token_of_call m (fst p) = Inr s) ps e1
               \<and> list_all2 (\<lambda>p s. token_of_call m (snd p) = Inr s) ps e2
               \<and> length ps = length ts)"
      by blast
    have "\<forall>l1 l2. r = Inr (l1, l2) \<longrightarrow>
            (\<exists>ps e1 e2. l1 = a1 @ e1 \<and> l2 = a2 @ e2
               \<and> new0 @ new' = concat (map (\<lambda>p. [fst p, snd p]) ps)
               \<and> list_all2 (\<lambda>p s. token_of_call m (fst p) = Inr s) ps e1
               \<and> list_all2 (\<lambda>p s. token_of_call m (snd p) = Inr s) ps e2
               \<and> length ps = length (t # ts))"
    proof (intro allI impI)
      fix l1 l2
      assume "r = Inr (l1, l2)"
      from ok [OF this] obtain ps e1 e2 where
        e: "l1 = (a1 @ [s1]) @ e1" "l2 = (a2 @ [s2]) @ e2"
          "new' = concat (map (\<lambda>p. [fst p, snd p]) ps)"
          "list_all2 (\<lambda>p s. token_of_call m (fst p) = Inr s) ps e1"
          "list_all2 (\<lambda>p s. token_of_call m (snd p) = Inr s) ps e2"
          "length ps = length ts"
        by blast
      show "\<exists>ps e1 e2. l1 = a1 @ e1 \<and> l2 = a2 @ e2
               \<and> new0 @ new' = concat (map (\<lambda>p. [fst p, snd p]) ps)
               \<and> list_all2 (\<lambda>p s. token_of_call m (fst p) = Inr s) ps e1
               \<and> list_all2 (\<lambda>p s. token_of_call m (snd p) = Inr s) ps e2
               \<and> length ps = length (t # ts)"
      proof (intro exI conjI)
        show "l1 = a1 @ (s1 # e1)" using e(1) by simp
        show "l2 = a2 @ (s2 # e2)" using e(2) by simp
        show "new0 @ new' = concat (map (\<lambda>p. [fst p, snd p]) ((c1, c2) # ps))"
          using e(3) c(1) by simp
        show "list_all2 (\<lambda>p s. token_of_call m (fst p) = Inr s) ((c1, c2) # ps) (s1 # e1)"
          using e(4) c(2) by simp
        show "list_all2 (\<lambda>p s. token_of_call m (snd p) = Inr s) ((c1, c2) # ps) (s2 # e2)"
          using e(5) c(3) by simp
        show "length ((c1, c2) # ps) = length (t # ts)" using e(6) by simp
      qed
    qed
    moreover have "cs' = cs @ (new0 @ new')" using n(1) by simp
    moreover have "list_all (\<lambda>c. snd c = ''2.4'') (new0 @ new')" using b0 n(2) by simp
    ultimately show ?thesis by blast
  qed
qed

lemma concat_pairs_length: "length (concat (map (\<lambda>p. [fst p, snd p]) ps)) = 2 * length ps"
  by (induction ps) simp_all

lemma concat_pairs_nth:
  "i < length ps \<Longrightarrow>
     concat (map (\<lambda>p. [fst p, snd p]) ps) ! (2 * i) = fst (ps ! i)
     \<and> concat (map (\<lambda>p. [fst p, snd p]) ps) ! (2 * i + 1) = snd (ps ! i)"
proof (induction ps arbitrary: i)
  case Nil
  then show ?case by simp
next
  case (Cons p ps)
  show ?case
  proof (cases i)
    case 0
    then show ?thesis by simp
  next
    case (Suc j)
    with Cons.prems have "j < length ps" by simp
    from Cons.IH [OF this] Suc show ?thesis by simp
  qed
qed




lemma default_run_in_range:
  assumes "t < 5000"
  shows "sample_in_range (PyInt 100) (PyInt 10) (PyInt 92) (PyFloat (Finite (1 / 1000))) t"
proof -
  have big: "(10000::real) < float_limit" by (simp add: float_limit_def)
  from assms have t: "0 \<le> real t" "real t < 5000" by simp_all
  let ?x = "92 * (real t * (1 / 1000))"
  have x: "0 \<le> ?x" "?x < 460" using t by simp_all
  have d1: "norm2 10 ?x < float_limit"
    using norm2_le_sum [of 10 ?x] x big by simp
  have d2: "norm2 10 (100 - ?x) < float_limit"
    using norm2_le_sum [of 10 "100 - ?x"] x big by simp
  show ?thesis
    unfolding sample_in_range_def spec_distance_1_def spec_distance_2_def
    using t x big d1 d2 by simp
qed

text \<open>
  Why the cross-track distance must not be zero: at sample 0 the train is then at AP 1,
  the distance is 0, and the logarithm raises before anything is written.
\<close>

lemma zero_train_distance_raises:
  assumes "in_range td" and "real_of td = 0" and "in_range tv" and "in_range g" and "0 < n"
  shows "main apd td tv g n m w = (w, Raised (ValueError ''math domain error''))"
proof -
  from assms(5) have "0 < nat n" by simp
  then have u: "[0..<nat n] = 0 # [Suc 0..<nat n]" by (rule upt_conv_Cons)
  have z: "\<bar>0::real\<bar> < float_limit" using float_limit_pos by simp
  have time: "py_mul (PyFloat (Finite 0)) g = Inr (PyFloat (Finite 0))"
    using py_mul_float_left [OF assms(4), of 0] z by simp
  have "current_signal_distance 1 td apd (PyFloat (Finite 0)) tv = Inr (Finite (norm2 0 0))"
    using distance_1_in_range [OF assms(1) _ assms(3), of "PyFloat (Finite 0)" apd] z assms(2)
    by (simp add: norm2_def)
  then have d: "current_signal_distance 1 td apd (PyFloat (Finite 0)) tv = Inr (Finite 0)"
    by (simp add: norm2_def)
  have "sample apd td tv g m 0 = ([(Finite 0, ''2.4'')], Inl (ValueError ''math domain error''))"
    using time d z
    by (simp add: sample_def compute_free_space_loss_float_def compute_free_space_loss_def
        log10_def default_band_def)
  then show ?thesis by (simp add: main_def u main_loop_Cons)
qed

text \<open>
  What the driver writes when a product is beyond the range of the floats: with velocity
  \<open>10 ^ 308\<close> and time 2 the product is infinite, so are both distances and both losses,
  and both tokens are \<^verbatim>\<open>inf\<close>.
\<close>

lemma overflowing_product_writes_inf:
  "sample (PyInt 100) (PyInt 10) (PyInt (10 ^ 308)) (PyFloat (Finite 1)) 3 2 =
     ([(PosInf, ''2.4''), (PosInf, ''2.4'')], Inr (''inf'', ''inf''))"
  by (simp add: sample_def current_signal_distance_def hypot_def float_limit_def overflow_def
      compute_free_space_loss_float_def default_band_def format_f_def)







text \<open>
  C9. With a number of command-line arguments other than three, the program prints the
  usage text to standard output and ends with exit status 1: no exception is raised and
  the file system is left as it was.
\<close>

theorem wrong_argument_count:
  assumes "length args \<noteq> 3"
  shows "script int_of argv0 args w =
           (w\<lparr>stdout := stdout w
                @ ''Usage: '' @ newline @ newline
                @ argv0 @ '' <inter-AP-distance> <train-AP-distance> <train-velocity>'' @ newline
                @ ''Suggested values for execution: '' @ newline
                @ argv0 @ '' 100 10 92'' @ newline\<rparr>, Exit 1)
         \<and> files (fst (script int_of argv0 args w)) = files w"
  using assms by (simp add: script_def usage_def print_def Let_def)

theorem wrong_argument_count_witness:
  "length [''100'', ''10''] \<noteq> 3
   \<and> script (\<lambda>s. Inl (ValueError s)) ''sim.py'' [''100'', ''10'']
         \<lparr>files = Map.empty, stdout = []\<rparr> =
       (\<lparr>files = Map.empty, stdout =
            ''Usage: '' @ newline @ newline
            @ ''sim.py <inter-AP-distance> <train-AP-distance> <train-velocity>'' @ newline
            @ ''Suggested values for execution: '' @ newline
            @ ''sim.py 100 10 92'' @ newline\<rparr>, Exit 1)
   \<and> files (fst (script (\<lambda>s. Inl (ValueError s)) ''sim.py'' [''100'', ''10'']
         \<lparr>files = Map.empty, stdout = []\<rparr>)) = Map.empty"
  using wrong_argument_count [of "[''100'', ''10'']" "\<lambda>s. Inl (ValueError s)" "''sim.py''"
      "\<lparr>files = Map.empty, stdout = []\<rparr>"]
  by simp

text \<open>
  C10. In every run of the loop, also one that an exception ends, every call of the loss
  function is made with band "2.4": no call with band "5.0" is made. When the loop
  returns, it has made two calls per sample, and entry \<open>i\<close> of the first list is the
  formatted result of the loss function at band "2.4" for the distance of call \<open>2 * i\<close>,
  entry \<open>i\<close> of the second list that for the distance of call \<open>2 * i + 1\<close>: every value
  of both output lines is a 2.4 GHz loss.
\<close>

theorem driver_uses_default_band:
  "list_all (\<lambda>c. snd c = ''2.4'') (fst (main_loop apd td tv g m [0..<nat n] [] [] []))
   \<and> (snd (main_loop apd td tv g m [0..<nat n] [] [] []) = Inr (l1, l2) \<longrightarrow>
        length (fst (main_loop apd td tv g m [0..<nat n] [] [] [])) = 2 * nat n
        \<and> length l1 = nat n \<and> length l2 = nat n
        \<and> (\<forall>i<nat n.
             (\<exists>loss. compute_free_space_loss_float
                        (fst (fst (main_loop apd td tv g m [0..<nat n] [] [] []) ! (2 * i)))
                        ''2.4'' = Inr loss
                  \<and> format_f m loss = Inr (l1 ! i))
           \<and> (\<exists>loss. compute_free_space_loss_float
                        (fst (fst (main_loop apd td tv g m [0..<nat n] [] [] []) ! (2 * i + 1)))
                        ''2.4'' = Inr loss
                  \<and> format_f m loss = Inr (l2 ! i))))"
proof -
  obtain cs r where full: "main_loop apd td tv g m [0..<nat n] [] [] [] = (cs, r)"
    by (cases "main_loop apd td tv g m [0..<nat n] [] [] []")
  from main_loop_run [OF full] have bands: "list_all (\<lambda>c. snd c = ''2.4'') cs"
    and ok: "\<And>l1 l2. r = Inr (l1, l2) \<Longrightarrow>
            (\<exists>ps. cs = concat (map (\<lambda>p. [fst p, snd p]) ps)
               \<and> list_all2 (\<lambda>p s. token_of_call m (fst p) = Inr s) ps l1
               \<and> list_all2 (\<lambda>p s. token_of_call m (snd p) = Inr s) ps l2
               \<and> length ps = length [0..<nat n])"
    by auto
  have tok: "\<And>c s. snd c = ''2.4'' \<Longrightarrow> token_of_call m c = Inr s \<Longrightarrow>
      \<exists>loss. compute_free_space_loss_float (fst c) ''2.4'' = Inr loss \<and> format_f m loss = Inr s"
    by (auto simp add: token_of_call_def split: sum.splits)
  have "r = Inr (l1, l2) \<longrightarrow>
        length cs = 2 * nat n \<and> length l1 = nat n \<and> length l2 = nat n
        \<and> (\<forall>i<nat n.
             (\<exists>loss. compute_free_space_loss_float (fst (cs ! (2 * i))) ''2.4'' = Inr loss
                  \<and> format_f m loss = Inr (l1 ! i))
           \<and> (\<exists>loss. compute_free_space_loss_float (fst (cs ! (2 * i + 1))) ''2.4'' = Inr loss
                  \<and> format_f m loss = Inr (l2 ! i)))"
  proof
    assume "r = Inr (l1, l2)"
    from ok [OF this] obtain ps where
      cs: "cs = concat (map (\<lambda>p. [fst p, snd p]) ps)"
      and t1: "list_all2 (\<lambda>p s. token_of_call m (fst p) = Inr s) ps l1"
      and t2: "list_all2 (\<lambda>p s. token_of_call m (snd p) = Inr s) ps l2"
      and lp: "length ps = nat n"
      by auto
    have lc: "length cs = 2 * nat n" using cs lp by (simp add: concat_pairs_length)
    have len: "length l1 = nat n" "length l2 = nat n"
      using t1 t2 lp by (simp_all add: list_all2_lengthD [symmetric])
    have "\<forall>i<nat n.
             (\<exists>loss. compute_free_space_loss_float (fst (cs ! (2 * i))) ''2.4'' = Inr loss
                  \<and> format_f m loss = Inr (l1 ! i))
           \<and> (\<exists>loss. compute_free_space_loss_float (fst (cs ! (2 * i + 1))) ''2.4'' = Inr loss
                  \<and> format_f m loss = Inr (l2 ! i))"
    proof (intro allI impI)
      fix i
      assume i: "i < nat n"
      with lp have ip: "i < length ps" by simp
      from concat_pairs_nth [OF ip] cs have
        e: "cs ! (2 * i) = fst (ps ! i)" "cs ! (2 * i + 1) = snd (ps ! i)"
        by simp_all
      from i lc have "2 * i < length cs" "2 * i + 1 < length cs" by simp_all
      with bands have b: "snd (cs ! (2 * i)) = ''2.4''" "snd (cs ! (2 * i + 1)) = ''2.4''"
        by (simp_all add: list_all_length)
      from t1 ip have k1: "token_of_call m (fst (ps ! i)) = Inr (l1 ! i)"
        by (rule list_all2_nthD)
      from t2 ip have k2: "token_of_call m (snd (ps ! i)) = Inr (l2 ! i)"
        by (rule list_all2_nthD)
      from tok [OF b(1)] tok [OF b(2)] k1 k2 e
      show "(\<exists>loss. compute_free_space_loss_float (fst (cs ! (2 * i))) ''2.4'' = Inr loss
                  \<and> format_f m loss = Inr (l1 ! i))
           \<and> (\<exists>loss. compute_free_space_loss_float (fst (cs ! (2 * i + 1))) ''2.4'' = Inr loss
                  \<and> format_f m loss = Inr (l2 ! i))"
        by simp
    qed
    with lc len show "length cs = 2 * nat n \<and> length l1 = nat n \<and> length l2 = nat n
        \<and> (\<forall>i<nat n.
             (\<exists>loss. compute_free_space_loss_float (fst (cs ! (2 * i))) ''2.4'' = Inr loss
                  \<and> format_f m loss = Inr (l1 ! i))
           \<and> (\<exists>loss. compute_free_space_loss_float (fst (cs ! (2 * i + 1))) ''2.4'' = Inr loss
                  \<and> format_f m loss = Inr (l2 ! i)))"
      by blast
  qed
  with bands show ?thesis by (simp add: full)
qed

theorem driver_uses_default_band_witness:
  "snd (main_loop (PyInt 100) (PyInt 10) (PyInt 92) (PyFloat (Finite (1 / 1000))) 3
          [0..<nat 5000] [] [] []) =
     Inr (map (\<lambda>t. format_fixed (nat 3) (spec_loss
               (spec_distance_1 (PyInt 10) (PyInt 92) (PyFloat (Finite (1 / 1000))) t)))
            [0..<nat 5000],
          map (\<lambda>t. format_fixed (nat 3) (spec_loss
               (spec_distance_2 (PyInt 100) (PyInt 10) (PyInt 92) (PyFloat (Finite (1 / 1000))) t)))
            [0..<nat 5000])
   \<and> list_all (\<lambda>c. snd c = ''2.4'')
        (fst (main_loop (PyInt 100) (PyInt 10) (PyInt 92) (PyFloat (Finite (1 / 1000))) 3
                [0..<nat 5000] [] [] []))
   \<and> length (fst (main_loop (PyInt 100) (PyInt 10) (PyInt 92) (PyFloat (Finite (1 / 1000))) 3
                [0..<nat 5000] [] [] [])) = 2 * nat 5000
   \<and> (\<exists>loss. compute_free_space_loss_float
          (fst (fst (main_loop (PyInt 100) (PyInt 10) (PyInt 92) (PyFloat (Finite (1 / 1000))) 3
                       [0..<nat 5000] [] [] []) ! (2 * 4999))) ''2.4'' = Inr loss
        \<and> format_f 3 loss =
            Inr (map (\<lambda>t. format_fixed (nat 3) (spec_loss
                      (spec_distance_1 (PyInt 10) (PyInt 92) (PyFloat (Finite (1 / 1000))) t)))
                   [0..<nat 5000] ! 4999))
   \<and> (\<exists>loss. compute_free_space_loss_float
          (fst (fst (main_loop (PyInt 100) (PyInt 10) (PyInt 92) (PyFloat (Finite (1 / 1000))) 3
                       [0..<nat 5000] [] [] []) ! (2 * 4999 + 1))) ''2.4'' = Inr loss
        \<and> format_f 3 loss =
            Inr (map (\<lambda>t. format_fixed (nat 3) (spec_loss
                      (spec_distance_2 (PyInt 100) (PyInt 10) (PyInt 92)
                         (PyFloat (Finite (1 / 1000))) t)))
                   [0..<nat 5000] ! 4999))"
proof -
  let ?l1 = "map (\<lambda>t. format_fixed (nat 3) (spec_loss
               (spec_distance_1 (PyInt 10) (PyInt 92) (PyFloat (Finite (1 / 1000))) t)))
            [0..<nat 5000]"
  let ?l2 = "map (\<lambda>t. format_fixed (nat 3) (spec_loss
               (spec_distance_2 (PyInt 100) (PyInt 10) (PyInt 92) (PyFloat (Finite (1 / 1000))) t)))
            [0..<nat 5000]"
  have r: "in_range (PyInt 100)" "in_range (PyInt 10)" "in_range (PyInt 92)"
    "in_range (PyFloat (Finite (1 / 1000)))"
    by (simp_all add: float_limit_def)
  have z: "real_of (PyInt 10) \<noteq> 0" by simp
  have m: "(0::int) \<le> 3" "(3::int) < 2 ^ 31" by simp_all
  have s: "\<forall>t \<in> set [0..<nat 5000].
      sample_in_range (PyInt 100) (PyInt 10) (PyInt 92) (PyFloat (Finite (1 / 1000))) t"
    using default_run_in_range by simp
  from main_loop_valid [OF r(1) r(2) r(3) r(4) z m(1) m(2) s]
  have run: "snd (main_loop (PyInt 100) (PyInt 10) (PyInt 92) (PyFloat (Finite (1 / 1000))) 3
          [0..<nat 5000] [] [] []) = Inr (?l1, ?l2)"
    by simp
  have i: "(4999::nat) < nat 5000" by simp
  from driver_uses_default_band [where apd = "PyInt 100" and td = "PyInt 10" and tv = "PyInt 92"
      and g = "PyFloat (Finite (1 / 1000))" and m = 3 and n = 5000 and ?l1.0 = ?l1
      and ?l2.0 = ?l2] run i
  show ?thesis by blast
qed


end
